theory Spec2Isabelle
  imports Main "HOL-Library.Word"
begin

section \<open>The round-robin scheduling policy\<close>

text \<open>
  The embedding follows \<^verbatim>\<open>src/src/RRSchedulingPolicy.cpp\<close>. A \<^verbatim>\<open>Pid\<close> is a C++
  \<^verbatim>\<open>int\<close> (\<^verbatim>\<open>typedef int Pid\<close> in the header), modelled as a 32-bit word that
  is read as a two's complement number (\<open>sint\<close>, and \<open><s\<close>, \<open>\<le>s\<close> to compare).
  The object is a record: \<^verbatim>\<open>readyQueue\<close> is the member the class declares itself (a
  \<^verbatim>\<open>std::queue\<close>, modelled as a list with the front of the queue at the head);
  \<^verbatim>\<open>sys\<close>, \<^verbatim>\<open>runningPid\<close>, \<^verbatim>\<open>quantum\<close> and \<^verbatim>\<open>quantumClock\<close> are members inherited
  from the base class \<^verbatim>\<open>SchedulingPolicy\<close>, whose header is not among the sources. The
  two counters are taken to be \<^verbatim>\<open>int\<close>, as the constructor's parameter
  \<^verbatim>\<open>int simQuantum\<close> is; \<^verbatim>\<open>quantumClock -= 1\<close> is modelled as subtraction on the 32-bit
  word (two's complement wrap-around at \<^verbatim>\<open>INT_MIN\<close>, where C++ leaves the result
  undefined). The pointer \<^verbatim>\<open>sys\<close> is an optional address; no operation reads it.

  The sentinel \<^verbatim>\<open>IDLE\<close> is a constant of the missing base header. Its value is not
  known, so every operation that mentions it takes it as its first argument
  \<open>idle\<close>, and every theorem holds for each value of it.
\<close>

type_synonym Pid = "32 word"

record RRSchedulingPolicy =
  sys :: "nat option"
  runningPid :: Pid
  quantum :: "32 word"
  quantumClock :: "32 word"
  readyQueue :: "Pid list"

text \<open>\<^verbatim>\<open>newProcess\<close>: \<^verbatim>\<open>readyQueue.push(pid)\<close>.\<close>

definition newProcess :: "Pid \<Rightarrow> RRSchedulingPolicy \<Rightarrow> RRSchedulingPolicy" where
  "newProcess pid s = s\<lparr>readyQueue := readyQueue s @ [pid]\<rparr>"

text \<open>
  \<^verbatim>\<open>dispatch\<close>: returns the pid and the object after the call. The four assignments
  of the else branch are kept in the order of the source.
\<close>

definition dispatch :: "Pid \<Rightarrow> RRSchedulingPolicy \<Rightarrow> Pid \<times> RRSchedulingPolicy" where
  "dispatch idle s =
     (if readyQueue s = [] then (idle, s)
      else
        let s1 = s\<lparr>runningPid := hd (readyQueue s)\<rparr>;
            s2 = s1\<lparr>readyQueue := tl (readyQueue s1)\<rparr>;
            s3 = s2\<lparr>quantumClock := quantum s2\<rparr>;
            s4 = s3\<lparr>quantumClock := quantumClock s3 - 1\<rparr>
        in (runningPid s4, s4))"

text \<open>\<^verbatim>\<open>preempt\<close>: returns the boolean and the object after the call.\<close>

definition preempt :: "Pid \<Rightarrow> RRSchedulingPolicy \<Rightarrow> bool \<times> RRSchedulingPolicy" where
  "preempt idle s =
     (if quantumClock s = 0 then
        let s1 = s\<lparr>readyQueue := readyQueue s @ [runningPid s]\<rparr>;
            s2 = s1\<lparr>runningPid := idle\<rparr>
        in (True, s2)
      else
        let s1 = s\<lparr>quantumClock := quantumClock s - 1\<rparr>
        in (False, s1))"

text \<open>
  \<^verbatim>\<open>resetPolicy\<close>: the queue is swapped with an empty one and the clock is set to
  the quantum. The source assigns nothing else.
\<close>

definition resetPolicy :: "RRSchedulingPolicy \<Rightarrow> RRSchedulingPolicy" where
  "resetPolicy s =
     (let s1 = s\<lparr>readyQueue := []\<rparr>;
          s2 = s1\<lparr>quantumClock := quantum s1\<rparr>
      in s2)"

text \<open>
  The constructor \<^verbatim>\<open>RRSchedulingPolicy::RRSchedulingPolicy(int simQuantum)\<close>, named
  \<open>constructor\<close> here since the record type has the name of the class. \<open>base\<close> is
  the object as the base-class constructor
  \<^verbatim>\<open>SchedulingPolicy()\<close> leaves it (that constructor is not among the sources, so
  nothing is assumed about it); then \<^verbatim>\<open>sys = NULL\<close>, \<^verbatim>\<open>quantum = simQuantum\<close> and
  \<^verbatim>\<open>resetPolicy()\<close>. There is no failure path in the source.
\<close>

definition constructor :: "RRSchedulingPolicy \<Rightarrow> 32 word \<Rightarrow> RRSchedulingPolicy" where
  "constructor base simQuantum =
     (let s1 = base\<lparr>sys := None\<rparr>;
          s2 = s1\<lparr>quantum := simQuantum\<rparr>
      in resetPolicy s2)"

subsection \<open>Call sequences\<close>

text \<open>
  The simulator drives the policy through its four operations. A call sequence is a
  list of calls; \<open>step\<close> performs one call and drops the returned value, \<open>run\<close>
  performs a sequence from left to right.
\<close>

datatype call = NewProcess Pid | Dispatch | Preempt | ResetPolicy

fun step :: "Pid \<Rightarrow> call \<Rightarrow> RRSchedulingPolicy \<Rightarrow> RRSchedulingPolicy" where
  "step idle (NewProcess pid) s = newProcess pid s"
| "step idle Dispatch s = snd (dispatch idle s)"
| "step idle Preempt s = snd (preempt idle s)"
| "step idle ResetPolicy s = resetPolicy s"

fun run :: "Pid \<Rightarrow> call list \<Rightarrow> RRSchedulingPolicy \<Rightarrow> RRSchedulingPolicy" where
  "run idle [] s = s"
| "run idle (c # cs) s = run idle cs (step idle c s)"

text \<open>\<open>n\<close> calls of \<^verbatim>\<open>preempt\<close> in a row, with the booleans they return.\<close>

fun preempts :: "Pid \<Rightarrow> nat \<Rightarrow> RRSchedulingPolicy \<Rightarrow> bool list \<times> RRSchedulingPolicy" where
  "preempts idle 0 s = ([], s)"
| "preempts idle (Suc n) s =
     (let (b, s1) = preempt idle s;
          (bs, s2) = preempts idle n s1
      in (b # bs, s2))"

text \<open>\<open>n\<close> calls of \<^verbatim>\<open>dispatch\<close> in a row, with the pids they return.\<close>

fun dispatches :: "Pid \<Rightarrow> nat \<Rightarrow> RRSchedulingPolicy \<Rightarrow> Pid list \<times> RRSchedulingPolicy" where
  "dispatches idle 0 s = ([], s)"
| "dispatches idle (Suc n) s =
     (let (p, s1) = dispatch idle s;
          (ps, s2) = dispatches idle n s1
      in (p # ps, s2))"

subsection \<open>What a call sequence shows from outside\<close>

text \<open>
  The definitions below are not operations of the class. They read off a state or a
  call sequence what the claims about pids speak of.

  \<open>tracked\<close>: the pids the policy holds, that is the contents of the ready queue and
  \<^verbatim>\<open>runningPid\<close> when it is not \<^verbatim>\<open>IDLE\<close>.
\<close>

definition tracked :: "Pid \<Rightarrow> RRSchedulingPolicy \<Rightarrow> Pid set" where
  "tracked idle s =
     set (readyQueue s) \<union> (if runningPid s = idle then {} else {runningPid s})"

text \<open>
  \<open>at_most_once\<close>: no pid is twice in the ready queue, and a running pid is not in
  the ready queue as well.
\<close>

definition at_most_once :: "Pid \<Rightarrow> RRSchedulingPolicy \<Rightarrow> bool" where
  "at_most_once idle s =
     (distinct (readyQueue s)
      \<and> (runningPid s \<noteq> idle \<longrightarrow> runningPid s \<notin> set (readyQueue s)))"

text \<open>
  \<open>well_formed\<close>: every \<^verbatim>\<open>newProcess\<close> gets a pid that is not tracked at that
  moment, and \<^verbatim>\<open>preempt\<close> is only called while \<^verbatim>\<open>runningPid\<close> is not \<^verbatim>\<open>IDLE\<close>.
\<close>

fun well_formed :: "Pid \<Rightarrow> RRSchedulingPolicy \<Rightarrow> call list \<Rightarrow> bool" where
  "well_formed idle s [] = True"
| "well_formed idle s (NewProcess pid # cs) =
     (pid \<notin> tracked idle s \<and> well_formed idle (step idle (NewProcess pid) s) cs)"
| "well_formed idle s (Preempt # cs) =
     (runningPid s \<noteq> idle \<and> well_formed idle (step idle Preempt s) cs)"
| "well_formed idle s (c # cs) = well_formed idle (step idle c s) cs"

text \<open>
  \<open>idle_dispatch\<close>: the sequence has no \<^verbatim>\<open>resetPolicy\<close>, and \<^verbatim>\<open>dispatch\<close> is only
  called when \<^verbatim>\<open>runningPid\<close> is \<^verbatim>\<open>IDLE\<close> or the ready queue is empty.
\<close>

fun idle_dispatch :: "Pid \<Rightarrow> RRSchedulingPolicy \<Rightarrow> call list \<Rightarrow> bool" where
  "idle_dispatch idle s [] = True"
| "idle_dispatch idle s (Dispatch # cs) =
     ((runningPid s = idle \<or> readyQueue s = [])
      \<and> idle_dispatch idle (step idle Dispatch s) cs)"
| "idle_dispatch idle s (ResetPolicy # cs) = False"
| "idle_dispatch idle s (c # cs) = idle_dispatch idle (step idle c s) cs"

text \<open>\<open>told\<close>: the pids passed to \<^verbatim>\<open>newProcess\<close> in a call sequence.\<close>

fun told :: "call list \<Rightarrow> Pid set" where
  "told [] = {}"
| "told (NewProcess pid # cs) = insert pid (told cs)"
| "told (c # cs) = told cs"

text \<open>
  \<open>enqueued\<close>: the pids pushed onto the ready queue during a call sequence, in the
  order of the pushes. \<^verbatim>\<open>newProcess\<close> pushes its argument; \<^verbatim>\<open>preempt\<close> pushes
  \<^verbatim>\<open>runningPid\<close> when it returns true.
\<close>

fun enqueued :: "Pid \<Rightarrow> call list \<Rightarrow> RRSchedulingPolicy \<Rightarrow> Pid list" where
  "enqueued idle [] s = []"
| "enqueued idle (NewProcess pid # cs) s =
     pid # enqueued idle cs (step idle (NewProcess pid) s)"
| "enqueued idle (Preempt # cs) s =
     (if fst (preempt idle s) then runningPid s # enqueued idle cs (step idle Preempt s)
      else enqueued idle cs (step idle Preempt s))"
| "enqueued idle (c # cs) s = enqueued idle cs (step idle c s)"

text \<open>
  \<open>dispatched\<close>: the pids that the \<^verbatim>\<open>dispatch\<close> calls of a sequence took off the
  ready queue and returned, in order (a \<^verbatim>\<open>dispatch\<close> on an empty queue takes nothing).
\<close>

fun dispatched :: "Pid \<Rightarrow> call list \<Rightarrow> RRSchedulingPolicy \<Rightarrow> Pid list" where
  "dispatched idle [] s = []"
| "dispatched idle (Dispatch # cs) s =
     (if readyQueue s = [] then dispatched idle cs (step idle Dispatch s)
      else fst (dispatch idle s) # dispatched idle cs (step idle Dispatch s))"
| "dispatched idle (c # cs) s = dispatched idle cs (step idle c s)"

section \<open>Auxiliary facts\<close>

lemmas ops = newProcess_def dispatch_def preempt_def resetPolicy_def constructor_def

lemma sint_dec:
  fixes c :: "32 word"
  assumes "0 < sint c"
  shows "sint (c - 1) = sint c - 1"
proof -
  have "sint c < 2 ^ 31" using sint_lt [of c] by simp
  then show ?thesis using assms
    by (simp add: sint_word_ariths signed_take_bit_int_eq_self)
qed

lemma sint_zero_iff:
  fixes c :: "32 word"
  shows "sint c = 0 \<longleftrightarrow> c = 0"
  by (simp add: signed_eq_0_iff)

lemma preempt_at_zero:
  "quantumClock s = 0 \<Longrightarrow>
   preempt idle s =
     (True, s\<lparr>runningPid := idle, readyQueue := readyQueue s @ [runningPid s]\<rparr>)"
  by (simp add: preempt_def)

lemma preempt_not_zero:
  "quantumClock s \<noteq> 0 \<Longrightarrow>
   preempt idle s = (False, s\<lparr>quantumClock := quantumClock s - 1\<rparr>)"
  by (simp add: preempt_def)

lemma resetPolicy_effect:
  "resetPolicy s = s\<lparr>quantumClock := quantum s, readyQueue := []\<rparr>"
  by (simp add: resetPolicy_def)

lemma resetPolicy_simps:
  "readyQueue (resetPolicy s) = []"
  "quantumClock (resetPolicy s) = quantum s"
  "quantum (resetPolicy s) = quantum s"
  "runningPid (resetPolicy s) = runningPid s"
  "sys (resetPolicy s) = sys s"
  by (simp_all add: resetPolicy_def)

lemma constructor_simps:
  "readyQueue (constructor base q) = []"
  "quantumClock (constructor base q) = q"
  "quantum (constructor base q) = q"
  "runningPid (constructor base q) = runningPid base"
  "sys (constructor base q) = None"
  by (simp_all add: constructor_def resetPolicy_def)

lemma quantum_step: "quantum (step idle c s) = quantum s"
  by (cases c) (simp_all add: ops)

section \<open>Single operations\<close>

text \<open>
  C1. When the ready queue is not empty, say it is \<open>p # ps\<close>, \<^verbatim>\<open>dispatch\<close> returns the
  head \<open>p\<close>; afterwards the queue is \<open>ps\<close>, \<^verbatim>\<open>runningPid\<close> is \<open>p\<close> and
  \<^verbatim>\<open>quantumClock\<close> is \<^verbatim>\<open>quantum - 1\<close> (in 32-bit arithmetic); nothing else changes.
\<close>

theorem dispatch_nonempty:
  "readyQueue s = p # ps \<Longrightarrow>
   dispatch idle s =
     (p, s\<lparr>runningPid := p, quantumClock := quantum s - 1, readyQueue := ps\<rparr>)"
  by (simp add: dispatch_def)

theorem dispatch_nonempty_witness:
  "readyQueue \<lparr>sys = None, runningPid = -1, quantum = 3, quantumClock = 3,
                readyQueue = [1, 2]\<rparr> = 1 # [2]
   \<and> dispatch (-1) \<lparr>sys = None, runningPid = -1, quantum = 3, quantumClock = 3,
                     readyQueue = [1, 2]\<rparr>
     = (1, \<lparr>sys = None, runningPid = 1, quantum = 3, quantumClock = 2,
            readyQueue = [2]\<rparr>)"
  using dispatch_nonempty [of "\<lparr>sys = None, runningPid = -1, quantum = 3,
    quantumClock = 3, readyQueue = [1, 2]\<rparr>" 1 "[2]" "-1"]
  by simp

text \<open>
  C3. \<^verbatim>\<open>preempt\<close> called with \<^verbatim>\<open>quantumClock\<close> equal to 0 appends the current
  \<^verbatim>\<open>runningPid\<close> behind everything already in the ready queue, sets \<^verbatim>\<open>runningPid\<close>
  to \<^verbatim>\<open>IDLE\<close> and returns true; called with any other clock value it decrements
  \<^verbatim>\<open>quantumClock\<close> by one, changes nothing else and returns false. Whether a
  process is running plays no part.
\<close>

theorem preempt_cases:
  "(quantumClock s = 0 \<longrightarrow>
      preempt idle s =
        (True, s\<lparr>runningPid := idle, readyQueue := readyQueue s @ [runningPid s]\<rparr>))
   \<and> (quantumClock s \<noteq> 0 \<longrightarrow>
      preempt idle s = (False, s\<lparr>quantumClock := quantumClock s - 1\<rparr>))"
  by (simp add: preempt_def)

theorem preempt_cases_witness:
  "quantumClock \<lparr>sys = None, runningPid = 1, quantum = 3, quantumClock = 0,
                  readyQueue = [2]\<rparr> = 0
   \<and> preempt (-1) \<lparr>sys = None, runningPid = 1, quantum = 3, quantumClock = 0,
                    readyQueue = [2]\<rparr>
       = (True, \<lparr>sys = None, runningPid = -1, quantum = 3, quantumClock = 0,
                 readyQueue = [2, 1]\<rparr>)
   \<and> quantumClock \<lparr>sys = None, runningPid = 1, quantum = 3, quantumClock = 2,
                    readyQueue = [2]\<rparr> \<noteq> 0
   \<and> preempt (-1) \<lparr>sys = None, runningPid = 1, quantum = 3, quantumClock = 2,
                    readyQueue = [2]\<rparr>
       = (False, \<lparr>sys = None, runningPid = 1, quantum = 3, quantumClock = 1,
                  readyQueue = [2]\<rparr>)"
  using preempt_cases [of "\<lparr>sys = None, runningPid = 1, quantum = 3, quantumClock = 0,
          readyQueue = [2]\<rparr>" "-1"]
        preempt_cases [of "\<lparr>sys = None, runningPid = 1, quantum = 3, quantumClock = 2,
          readyQueue = [2]\<rparr>" "-1"]
  by simp

text \<open>
  C4. On an empty ready queue \<^verbatim>\<open>dispatch\<close> returns \<^verbatim>\<open>IDLE\<close> and the object is
  unchanged in every member.
\<close>

theorem dispatch_empty:
  "readyQueue s = [] \<Longrightarrow> dispatch idle s = (idle, s)"
  by (simp add: dispatch_def)

theorem dispatch_empty_witness:
  "readyQueue \<lparr>sys = None, runningPid = 4, quantum = 3, quantumClock = 1,
                readyQueue = []\<rparr> = []
   \<and> dispatch (-1) \<lparr>sys = None, runningPid = 4, quantum = 3, quantumClock = 1,
                     readyQueue = []\<rparr>
     = (-1, \<lparr>sys = None, runningPid = 4, quantum = 3, quantumClock = 1,
             readyQueue = []\<rparr>)"
  using dispatch_empty [of "\<lparr>sys = None, runningPid = 4, quantum = 3,
    quantumClock = 1, readyQueue = []\<rparr>" "-1"]
  by simp

text \<open>
  C5. \<^verbatim>\<open>resetPolicy\<close> empties the ready queue and sets \<^verbatim>\<open>quantumClock\<close> to
  \<^verbatim>\<open>quantum\<close> (lemma \<open>resetPolicy_effect\<close>), but it does not touch \<^verbatim>\<open>runningPid\<close>.
  With \<^verbatim>\<open>IDLE\<close> = -1 and a policy constructed with quantum 2: after
  \<^verbatim>\<open>newProcess(5)\<close>, \<^verbatim>\<open>newProcess(7)\<close>, \<^verbatim>\<open>dispatch()\<close>, \<^verbatim>\<open>preempt()\<close> and
  \<^verbatim>\<open>resetPolicy()\<close> the member \<^verbatim>\<open>runningPid\<close> is still 5, not \<^verbatim>\<open>IDLE\<close>; three
  \<^verbatim>\<open>preempt()\<close> calls later pid 5 is back on the ready queue and the next
  \<^verbatim>\<open>dispatch()\<close> returns it, although it was running before the reset.
\<close>

theorem resetPolicy_keeps_runningPid:
  "runningPid (run (-1) [NewProcess 5, NewProcess 7, Dispatch, Preempt, ResetPolicy]
     (constructor \<lparr>sys = None, runningPid = -1, quantum = 0, quantumClock = 0,
        readyQueue = []\<rparr> 2)) = 5
   \<and> dispatch (-1)
       (run (-1) [NewProcess 5, NewProcess 7, Dispatch, Preempt, ResetPolicy,
                  Preempt, Preempt, Preempt]
         (constructor \<lparr>sys = None, runningPid = -1, quantum = 0, quantumClock = 0,
            readyQueue = []\<rparr> 2))
     = (5, \<lparr>sys = None, runningPid = 5, quantum = 2, quantumClock = 1, readyQueue = []\<rparr>)"
  by (simp add: ops)

section \<open>The quantum\<close>

lemma preempts_countdown:
  "sint (quantumClock s) = int n \<Longrightarrow>
   fst (preempts idle (Suc n) s) = replicate n False @ [True]"
proof (induction n arbitrary: s)
  case 0
  then have "quantumClock s = 0" by (simp add: sint_zero_iff)
  then show ?case by (simp add: preempt_at_zero)
next
  case (Suc n)
  let ?s1 = "s\<lparr>quantumClock := quantumClock s - 1\<rparr>"
  from Suc.prems have nz: "quantumClock s \<noteq> 0" by auto
  have "sint (quantumClock s - 1) = int n"
    using Suc.prems sint_dec [of "quantumClock s"] by simp
  then have ih: "fst (preempts idle (Suc n) ?s1) = replicate n False @ [True]"
    using Suc.IH [of ?s1] by simp
  have "fst (preempts idle (Suc (Suc n)) s) = False # fst (preempts idle (Suc n) ?s1)"
    by (simp only: preempts.simps(2) [of idle "Suc n" s] preempt_not_zero [OF nz])
       (simp add: split_def Let_def)
  then show ?case using ih by simp
qed

text \<open>
  C2. Let the quantum be positive (as a signed number) and the ready queue not empty.
  After \<^verbatim>\<open>dispatch\<close>, \<^verbatim>\<open>quantum\<close> calls of \<^verbatim>\<open>preempt\<close> in a row return false
  \<^verbatim>\<open>quantum - 1\<close> times and then true.
\<close>

theorem preempt_quantum_times:
  assumes "0 <s quantum s" and "readyQueue s \<noteq> []"
  shows "fst (preempts idle (nat (sint (quantum s))) (snd (dispatch idle s)))
         = replicate (nat (sint (quantum s)) - 1) False @ [True]"
proof -
  have pos: "0 < sint (quantum s)" using assms(1) by (simp add: word_sless_alt)
  then obtain n where n: "nat (sint (quantum s)) = Suc n"
    by (metis Suc_pred zero_less_nat_eq)
  have "sint (quantum s - 1) = int n"
    using sint_dec [OF pos] n by simp
  then have "sint (quantumClock (snd (dispatch idle s))) = int n"
    using assms(2) by (simp add: dispatch_def)
  from preempts_countdown [OF this] show ?thesis using n by simp
qed

theorem preempt_quantum_times_witness:
  "0 <s (3::32 word)
   \<and> readyQueue \<lparr>sys = None, runningPid = -1, quantum = 3, quantumClock = 3,
                  readyQueue = [1, 2]\<rparr> \<noteq> []
   \<and> fst (preempts (-1) 3
            (snd (dispatch (-1) \<lparr>sys = None, runningPid = -1, quantum = 3,
                                  quantumClock = 3, readyQueue = [1, 2]\<rparr>)))
       = [False, False, True]"
proof -
  have h: "0 <s (3::32 word)" by (simp add: word_sless_alt)
  show ?thesis
    using h preempt_quantum_times [of "\<lparr>sys = None, runningPid = -1, quantum = 3,
      quantumClock = 3, readyQueue = [1, 2]\<rparr>" "-1"]
    by (simp add: eval_nat_numeral)
qed

lemma clock_step:
  assumes "0 < sint (quantum s)"
    and "0 \<le> sint (quantumClock s)" and "sint (quantumClock s) \<le> sint (quantum s)"
  shows "0 \<le> sint (quantumClock (step idle c s))
         \<and> sint (quantumClock (step idle c s)) \<le> sint (quantum s)"
proof (cases c)
  case (NewProcess p)
  then show ?thesis using assms by (simp add: newProcess_def)
next
  case Dispatch
  show ?thesis
  proof (cases "readyQueue s = []")
    case True
    then show ?thesis using assms Dispatch by (simp add: dispatch_def)
  next
    case False
    then have "quantumClock (step idle c s) = quantum s - 1"
      using Dispatch by (simp add: dispatch_def)
    then show ?thesis using sint_dec [OF assms(1)] assms(1) by simp
  qed
next
  case Preempt
  show ?thesis
  proof (cases "quantumClock s = 0")
    case True
    then show ?thesis using assms Preempt by (simp add: preempt_at_zero)
  next
    case False
    then have pos: "0 < sint (quantumClock s)"
      using assms(2) sint_zero_iff [of "quantumClock s"] by linarith
    from False have "quantumClock (step idle c s) = quantumClock s - 1"
      using Preempt by (simp add: preempt_not_zero)
    then show ?thesis using sint_dec [OF pos] pos assms(3) by simp
  qed
next
  case ResetPolicy
  then show ?thesis using assms by (simp add: resetPolicy_simps)
qed

lemma clock_run:
  "0 < sint (quantum s) \<Longrightarrow> 0 \<le> sint (quantumClock s) \<Longrightarrow>
   sint (quantumClock s) \<le> sint (quantum s) \<Longrightarrow>
   0 \<le> sint (quantumClock (run idle cs s))
   \<and> sint (quantumClock (run idle cs s)) \<le> sint (quantum s)"
proof (induction cs arbitrary: s)
  case Nil
  then show ?case by simp
next
  case (Cons c cs)
  have "0 \<le> sint (quantumClock (step idle c s))
        \<and> sint (quantumClock (step idle c s)) \<le> sint (quantum (step idle c s))"
    using clock_step [OF Cons.prems] by (simp add: quantum_step)
  then show ?case using Cons.IH [of "step idle c s"] Cons.prems(1)
    by (simp add: quantum_step)
qed

text \<open>
  C8. For a policy constructed with a positive quantum \<open>q\<close>, after every sequence of
  calls \<^verbatim>\<open>quantumClock\<close> is between 0 and \<open>q\<close> (as signed numbers). The sequence
  \<open>cs\<close> is arbitrary, so the bound holds after each single operation, and it holds in
  particular for the sequences that call \<^verbatim>\<open>preempt\<close> only while a process is running.
\<close>

theorem quantumClock_in_range:
  assumes "0 <s q"
  shows "0 \<le>s quantumClock (run idle cs (constructor base q))
         \<and> quantumClock (run idle cs (constructor base q)) \<le>s q"
proof -
  have "0 < sint q" using assms by (simp add: word_sless_alt)
  then show ?thesis
    using clock_run [of "constructor base q" idle cs]
    by (simp add: constructor_simps word_sle_eq)
qed

theorem quantumClock_in_range_witness:
  "0 <s (2::32 word)
   \<and> 0 \<le>s quantumClock (run (-1) [NewProcess 1, Dispatch, Preempt, Preempt, Preempt]
        (constructor \<lparr>sys = None, runningPid = -1, quantum = 0, quantumClock = 0,
           readyQueue = []\<rparr> 2))
   \<and> quantumClock (run (-1) [NewProcess 1, Dispatch, Preempt, Preempt, Preempt]
        (constructor \<lparr>sys = None, runningPid = -1, quantum = 0, quantumClock = 0,
           readyQueue = []\<rparr> 2)) \<le>s 2"
proof -
  have h: "0 <s (2::32 word)" by (simp add: word_sless_alt)
  show ?thesis
    using h quantumClock_in_range [OF h, of "-1"
      "[NewProcess 1, Dispatch, Preempt, Preempt, Preempt]"
      "\<lparr>sys = None, runningPid = -1, quantum = 0, quantumClock = 0, readyQueue = []\<rparr>"]
    by simp
qed

section \<open>Pids are neither duplicated nor lost\<close>

lemma well_formed_Cons:
  "well_formed idle s (c # cs) \<longleftrightarrow>
     well_formed idle s [c] \<and> well_formed idle (step idle c s) cs"
  by (cases c) simp_all

lemma idle_dispatch_Cons:
  "idle_dispatch idle s (c # cs) \<longleftrightarrow>
     idle_dispatch idle s [c] \<and> idle_dispatch idle (step idle c s) cs"
  by (cases c) simp_all

lemma told_Cons: "told (c # cs) = told [c] \<union> told cs"
  by (cases c) simp_all

lemma at_most_once_step:
  assumes "at_most_once idle s" and "well_formed idle s [c]"
  shows "at_most_once idle (step idle c s)"
proof (cases c)
  case (NewProcess p)
  then show ?thesis using assms
    by (auto simp: at_most_once_def tracked_def newProcess_def split: if_splits)
next
  case Dispatch
  show ?thesis
  proof (cases "readyQueue s")
    case Nil
    then show ?thesis using assms Dispatch by (simp add: dispatch_def)
  next
    case (Cons p ps)
    then show ?thesis using assms Dispatch
      by (simp add: at_most_once_def dispatch_def)
  qed
next
  case Preempt
  then show ?thesis using assms
    by (cases "quantumClock s = 0")
       (simp_all add: at_most_once_def preempt_at_zero preempt_not_zero)
next
  case ResetPolicy
  then show ?thesis by (simp add: at_most_once_def resetPolicy_simps)
qed

lemma at_most_once_run:
  "at_most_once idle s \<Longrightarrow> well_formed idle s cs \<Longrightarrow> at_most_once idle (run idle cs s)"
proof (induction cs arbitrary: s)
  case Nil
  then show ?case by simp
next
  case (Cons c cs)
  from Cons.prems(2) have w1: "well_formed idle s [c]"
    and w2: "well_formed idle (step idle c s) cs"
    using well_formed_Cons [of idle s c cs] by simp_all
  from at_most_once_step [OF Cons.prems(1) w1] Cons.IH w2 show ?case by simp
qed

lemma tracked_step:
  assumes "well_formed idle s [c]" and "idle_dispatch idle s [c]"
  shows "tracked idle (step idle c s) - {idle} = (tracked idle s \<union> told [c]) - {idle}"
proof (cases c)
  case (NewProcess p)
  then show ?thesis by (auto simp: tracked_def newProcess_def)
next
  case Dispatch
  show ?thesis
  proof (cases "readyQueue s")
    case Nil
    then show ?thesis using Dispatch by (simp add: dispatch_def)
  next
    case (Cons p ps)
    then have "runningPid s = idle" using assms(2) Dispatch by simp
    then show ?thesis using Cons Dispatch
      by (auto simp: tracked_def dispatch_def)
  qed
next
  case Preempt
  then have "runningPid s \<noteq> idle" using assms(1) by simp
  then show ?thesis using Preempt
    by (cases "quantumClock s = 0")
       (auto simp: tracked_def preempt_at_zero preempt_not_zero)
next
  case ResetPolicy
  then show ?thesis using assms(2) by simp
qed

lemma tracked_run:
  "well_formed idle s cs \<Longrightarrow> idle_dispatch idle s cs \<Longrightarrow>
   tracked idle (run idle cs s) - {idle} = (tracked idle s \<union> told cs) - {idle}"
proof (induction cs arbitrary: s)
  case Nil
  then show ?case by simp
next
  case (Cons c cs)
  from Cons.prems(1) have w1: "well_formed idle s [c]"
    and w2: "well_formed idle (step idle c s) cs"
    using well_formed_Cons [of idle s c cs] by simp_all
  from Cons.prems(2) have k1: "idle_dispatch idle s [c]"
    and k2: "idle_dispatch idle (step idle c s) cs"
    using idle_dispatch_Cons [of idle s c cs] by simp_all
  have "tracked idle (run idle cs (step idle c s)) - {idle}
        = (tracked idle (step idle c s) \<union> told cs) - {idle}"
    by (rule Cons.IH [OF w2 k2])
  also have "\<dots> = ((tracked idle (step idle c s) - {idle}) \<union> told cs) - {idle}"
    by blast
  also have "\<dots> = (((tracked idle s \<union> told [c]) - {idle}) \<union> told cs) - {idle}"
    by (simp only: tracked_step [OF w1 k1])
  also have "\<dots> = (tracked idle s \<union> told (c # cs)) - {idle}"
    using told_Cons [of c cs] by blast
  finally show ?case by simp
qed

text \<open>
  C6, as the claim states it, fails. With \<^verbatim>\<open>IDLE\<close> = -1 and a fresh policy, both call
  sequences below are well formed in the claim's sense, and pid 1, which the policy was
  told about, is afterwards neither in the ready queue nor running: the second
  \<^verbatim>\<open>dispatch\<close> overwrites \<^verbatim>\<open>runningPid\<close> (the policy is never told that a process
  finished), and \<^verbatim>\<open>resetPolicy\<close> discards the queue.
\<close>

theorem pids_lost_counterexample:
  "well_formed (-1) (constructor \<lparr>sys = None, runningPid = -1, quantum = 0,
      quantumClock = 0, readyQueue = []\<rparr> 2)
        [NewProcess 1, NewProcess 2, Dispatch, Dispatch]
   \<and> 1 \<notin> tracked (-1)
        (run (-1) [NewProcess 1, NewProcess 2, Dispatch, Dispatch]
          (constructor \<lparr>sys = None, runningPid = -1, quantum = 0,
             quantumClock = 0, readyQueue = []\<rparr> 2))
   \<and> well_formed (-1) (constructor \<lparr>sys = None, runningPid = -1, quantum = 0,
      quantumClock = 0, readyQueue = []\<rparr> 2)
        [NewProcess 1, ResetPolicy]
   \<and> 1 \<notin> tracked (-1)
        (run (-1) [NewProcess 1, ResetPolicy]
          (constructor \<lparr>sys = None, runningPid = -1, quantum = 0,
             quantumClock = 0, readyQueue = []\<rparr> 2))"
  by (simp add: tracked_def ops)

text \<open>
  C6, amended. Start in a state where every pid appears at most once, and run a call
  sequence in which each \<^verbatim>\<open>newProcess\<close> pid is not tracked at the time of the call
  and \<^verbatim>\<open>preempt\<close> is only called while a process is running. Then every pid appears
  at most once across the ready queue and \<^verbatim>\<open>runningPid\<close> afterwards. If moreover the
  sequence has no \<^verbatim>\<open>resetPolicy\<close> and calls \<^verbatim>\<open>dispatch\<close> only when no process is
  running or the queue is empty, then the pids tracked at the end (other than the
  sentinel) are exactly those tracked at the start together with those passed to
  \<^verbatim>\<open>newProcess\<close>: none is lost and none appears from nowhere.
\<close>

theorem pids_at_most_once:
  assumes "at_most_once idle s" and "well_formed idle s cs"
  shows "at_most_once idle (run idle cs s)
     \<and> (idle_dispatch idle s cs \<longrightarrow>
          tracked idle (run idle cs s) - {idle} = (tracked idle s \<union> told cs) - {idle})"
  using assms at_most_once_run tracked_run by blast

theorem pids_at_most_once_witness:
  "at_most_once (-1) (constructor \<lparr>sys = None, runningPid = -1, quantum = 0,
      quantumClock = 0, readyQueue = []\<rparr> 2)
   \<and> well_formed (-1) (constructor \<lparr>sys = None, runningPid = -1, quantum = 0,
      quantumClock = 0, readyQueue = []\<rparr> 2)
        [NewProcess 1, NewProcess 2, Dispatch, Preempt, Preempt, Dispatch]
   \<and> idle_dispatch (-1) (constructor \<lparr>sys = None, runningPid = -1, quantum = 0,
      quantumClock = 0, readyQueue = []\<rparr> 2)
        [NewProcess 1, NewProcess 2, Dispatch, Preempt, Preempt, Dispatch]
   \<and> at_most_once (-1)
        (run (-1) [NewProcess 1, NewProcess 2, Dispatch, Preempt, Preempt, Dispatch]
          (constructor \<lparr>sys = None, runningPid = -1, quantum = 0,
             quantumClock = 0, readyQueue = []\<rparr> 2))
   \<and> tracked (-1)
        (run (-1) [NewProcess 1, NewProcess 2, Dispatch, Preempt, Preempt, Dispatch]
          (constructor \<lparr>sys = None, runningPid = -1, quantum = 0,
             quantumClock = 0, readyQueue = []\<rparr> 2)) - {-1} = {1, 2}"
proof -
  let ?s = "constructor \<lparr>sys = None, runningPid = -1, quantum = 0,
      quantumClock = 0, readyQueue = []\<rparr> 2"
  let ?cs = "[NewProcess 1, NewProcess 2, Dispatch, Preempt, Preempt, Dispatch]"
  have a: "at_most_once (-1) ?s" by (simp add: at_most_once_def ops)
  have w: "well_formed (-1) ?s ?cs" by (simp add: tracked_def ops)
  have k: "idle_dispatch (-1) ?s ?cs" by (simp add: ops)
  have t: "(tracked (-1) ?s \<union> told ?cs) - {-1} = {1, 2}"
    by (auto simp: tracked_def ops)
  from pids_at_most_once [OF a w] k t a w show ?thesis by simp
qed

section \<open>First in, first out\<close>

lemma dispatched_Cons:
  "dispatched idle (c # cs) s = dispatched idle [c] s @ dispatched idle cs (step idle c s)"
  by (cases c) simp_all

lemma enqueued_Cons:
  "enqueued idle (c # cs) s = enqueued idle [c] s @ enqueued idle cs (step idle c s)"
  by (cases c) simp_all

lemma fifo_step:
  "c \<noteq> ResetPolicy \<Longrightarrow>
   dispatched idle [c] s @ readyQueue (step idle c s) = readyQueue s @ enqueued idle [c] s"
proof (cases c)
  case (NewProcess p)
  then show ?thesis by (simp add: newProcess_def)
next
  case Dispatch
  then show ?thesis by (cases "readyQueue s") (simp_all add: dispatch_def)
next
  case Preempt
  then show ?thesis
    by (cases "quantumClock s = 0") (simp_all add: preempt_at_zero preempt_not_zero)
next
  case ResetPolicy
  assume "c \<noteq> ResetPolicy"
  with ResetPolicy show ?thesis by simp
qed

lemma fifo_run:
  "ResetPolicy \<notin> set cs \<Longrightarrow>
   dispatched idle cs s @ readyQueue (run idle cs s) = readyQueue s @ enqueued idle cs s"
proof (induction cs arbitrary: s)
  case Nil
  then show ?case by simp
next
  case (Cons c cs)
  then have c: "c \<noteq> ResetPolicy" and cs: "ResetPolicy \<notin> set cs" by auto
  have "dispatched idle (c # cs) s @ readyQueue (run idle (c # cs) s)
        = dispatched idle [c] s @ (dispatched idle cs (step idle c s)
            @ readyQueue (run idle cs (step idle c s)))"
    by (simp add: dispatched_Cons [of idle c cs s])
  also have "\<dots> = dispatched idle [c] s @ (readyQueue (step idle c s)
            @ enqueued idle cs (step idle c s))"
    by (simp only: Cons.IH [OF cs])
  also have "\<dots> = (readyQueue s @ enqueued idle [c] s) @ enqueued idle cs (step idle c s)"
    using fifo_step [OF c, of idle s] by simp
  also have "\<dots> = readyQueue s @ enqueued idle (c # cs) s"
    by (simp add: enqueued_Cons [of idle c cs s])
  finally show ?case .
qed

text \<open>
  C7, as the claim states it for every call sequence, fails when \<^verbatim>\<open>resetPolicy\<close> is
  called in between. With \<^verbatim>\<open>IDLE\<close> = -1 and a fresh policy: pid 1 is enqueued, the
  policy is reset, pid 2 is enqueued, and \<^verbatim>\<open>dispatch\<close> returns 2. Pid 1 was enqueued
  strictly before pid 2, neither was preempted, and pid 1 is never dispatched.
\<close>

theorem fifo_reset_counterexample:
  "enqueued (-1) [NewProcess 1, ResetPolicy, NewProcess 2, Dispatch]
        (constructor \<lparr>sys = None, runningPid = -1, quantum = 0,
             quantumClock = 0, readyQueue = []\<rparr> 3) = [1, 2]
   \<and> dispatched (-1) [NewProcess 1, ResetPolicy, NewProcess 2, Dispatch]
        (constructor \<lparr>sys = None, runningPid = -1, quantum = 0,
             quantumClock = 0, readyQueue = []\<rparr> 3) = [2]
   \<and> readyQueue (run (-1) [NewProcess 1, ResetPolicy, NewProcess 2, Dispatch]
        (constructor \<lparr>sys = None, runningPid = -1, quantum = 0,
             quantumClock = 0, readyQueue = []\<rparr> 3)) = []"
  by (simp add: ops)

text \<open>
  C7, amended. In a call sequence without \<^verbatim>\<open>resetPolicy\<close>, the pids handed out by
  \<^verbatim>\<open>dispatch\<close>, in order, followed by the ready queue at the end, are exactly the
  ready queue at the start followed by the pids enqueued, in order. So the pids
  dispatched are an initial segment of the pids enqueued: the k-th pid enqueued is the
  k-th pid dispatched, and a pid enqueued before another is dispatched before it. A pid
  that is preempted is enqueued again at that moment, behind all that wait.
\<close>

theorem dispatch_order_is_enqueue_order:
  assumes "ResetPolicy \<notin> set cs"
  shows "dispatched idle cs s @ readyQueue (run idle cs s) = readyQueue s @ enqueued idle cs s
     \<and> dispatched idle cs s
         = take (length (dispatched idle cs s)) (readyQueue s @ enqueued idle cs s)"
proof -
  have e: "dispatched idle cs s @ readyQueue (run idle cs s)
           = readyQueue s @ enqueued idle cs s"
    by (rule fifo_run [OF assms])
  have "take (length (dispatched idle cs s))
          (dispatched idle cs s @ readyQueue (run idle cs s)) = dispatched idle cs s"
    by simp
  with e show ?thesis by simp
qed

theorem dispatch_order_is_enqueue_order_witness:
  "ResetPolicy \<notin> set [NewProcess 1, NewProcess 2, Dispatch, Preempt, Preempt, Preempt,
                         Dispatch]
   \<and> dispatched (-1) [NewProcess 1, NewProcess 2, Dispatch, Preempt, Preempt, Preempt,
                       Dispatch]
        (constructor \<lparr>sys = None, runningPid = -1, quantum = 0,
             quantumClock = 0, readyQueue = []\<rparr> 3) = [1, 2]
   \<and> enqueued (-1) [NewProcess 1, NewProcess 2, Dispatch, Preempt, Preempt, Preempt,
                     Dispatch]
        (constructor \<lparr>sys = None, runningPid = -1, quantum = 0,
             quantumClock = 0, readyQueue = []\<rparr> 3) = [1, 2, 1]
   \<and> readyQueue (run (-1) [NewProcess 1, NewProcess 2, Dispatch, Preempt, Preempt,
                            Preempt, Dispatch]
        (constructor \<lparr>sys = None, runningPid = -1, quantum = 0,
             quantumClock = 0, readyQueue = []\<rparr> 3)) = [1]"
proof -
  let ?s = "constructor \<lparr>sys = None, runningPid = -1, quantum = 0,
      quantumClock = 0, readyQueue = []\<rparr> 3"
  let ?cs = "[NewProcess 1, NewProcess 2, Dispatch, Preempt, Preempt, Preempt, Dispatch]"
  have n: "ResetPolicy \<notin> set ?cs" by simp
  have d: "dispatched (-1) ?cs ?s = [1, 2]" by (simp add: ops)
  have e: "enqueued (-1) ?cs ?s = [1, 2, 1]" by (simp add: ops)
  have q: "readyQueue ?s = []" by (simp add: ops)
  from dispatch_order_is_enqueue_order [OF n, of "-1" ?s] d e q n show ?thesis by simp
qed

section \<open>Misuse\<close>

text \<open>
  C9, as the claim states it, fails in both of its alternatives. With \<^verbatim>\<open>IDLE\<close> = -1:
  constructing with the quantum -3 yields an ordinary object whose quantum and clock
  are -3; and in a policy with quantum 1, after \<^verbatim>\<open>newProcess(5)\<close>, \<^verbatim>\<open>dispatch()\<close>
  and \<^verbatim>\<open>preempt()\<close> no process is running (the code itself has set \<^verbatim>\<open>runningPid\<close>
  to \<^verbatim>\<open>IDLE\<close>), and a further \<^verbatim>\<open>preempt()\<close> returns true and changes the ready
  queue.
\<close>

theorem misuse_counterexample:
  "constructor \<lparr>sys = None, runningPid = -1, quantum = 0, quantumClock = 0,
       readyQueue = []\<rparr> (-3)
     = \<lparr>sys = None, runningPid = -1, quantum = -3, quantumClock = -3, readyQueue = []\<rparr>
   \<and> run (-1) [NewProcess 5, Dispatch, Preempt]
       (constructor \<lparr>sys = None, runningPid = -1, quantum = 0, quantumClock = 0,
          readyQueue = []\<rparr> 1)
     = \<lparr>sys = None, runningPid = -1, quantum = 1, quantumClock = 0, readyQueue = [5]\<rparr>
   \<and> preempt (-1)
       \<lparr>sys = None, runningPid = -1, quantum = 1, quantumClock = 0, readyQueue = [5]\<rparr>
     = (True,
        \<lparr>sys = None, runningPid = -1, quantum = 1, quantumClock = 0,
           readyQueue = [5, -1]\<rparr>)"
  by (simp add: ops)

text \<open>
  C9, amended. The implementation does neither. The constructor accepts every quantum
  and stores it, as \<^verbatim>\<open>quantum\<close> and as \<^verbatim>\<open>quantumClock\<close>, with an empty ready
  queue. \<^verbatim>\<open>preempt\<close> does not look at \<^verbatim>\<open>runningPid\<close>: called while no process is
  running, it pushes \<^verbatim>\<open>IDLE\<close> onto the ready queue and returns true when
  \<^verbatim>\<open>quantumClock\<close> is 0, and otherwise decrements \<^verbatim>\<open>quantumClock\<close> and returns
  false.
\<close>

theorem misuse_not_rejected:
  "quantum (constructor base q) = q
   \<and> quantumClock (constructor base q) = q
   \<and> readyQueue (constructor base q) = []
   \<and> (runningPid s = idle \<longrightarrow>
        preempt idle s =
          (if quantumClock s = 0 then (True, s\<lparr>readyQueue := readyQueue s @ [idle]\<rparr>)
           else (False, s\<lparr>quantumClock := quantumClock s - 1\<rparr>)))"
  by (simp add: ops)

theorem misuse_not_rejected_witness:
  "quantum (constructor \<lparr>sys = None, runningPid = -1, quantum = 0, quantumClock = 0,
       readyQueue = []\<rparr> (-3)) = -3
   \<and> runningPid \<lparr>sys = None, runningPid = -1, quantum = -3, quantumClock = -3,
       readyQueue = []\<rparr> = -1
   \<and> preempt (-1) \<lparr>sys = None, runningPid = -1, quantum = -3, quantumClock = -3,
       readyQueue = []\<rparr>
       = (False, \<lparr>sys = None, runningPid = -1, quantum = -3, quantumClock = -4,
       readyQueue = []\<rparr>)
   \<and> runningPid \<lparr>sys = None, runningPid = -1, quantum = 0, quantumClock = 0,
       readyQueue = []\<rparr> = -1
   \<and> preempt (-1) \<lparr>sys = None, runningPid = -1, quantum = 0, quantumClock = 0,
       readyQueue = []\<rparr>
       = (True, \<lparr>sys = None, runningPid = -1, quantum = 0, quantumClock = 0,
       readyQueue = [-1]\<rparr>)"
  using misuse_not_rejected [of "\<lparr>sys = None, runningPid = -1, quantum = 0,
       quantumClock = 0, readyQueue = []\<rparr>" "-3"
       "\<lparr>sys = None, runningPid = -1, quantum = -3, quantumClock = -3,
       readyQueue = []\<rparr>" "-1"]
    misuse_not_rejected [of "\<lparr>sys = None, runningPid = -1, quantum = 0,
       quantumClock = 0, readyQueue = []\<rparr>" "0"
       "\<lparr>sys = None, runningPid = -1, quantum = 0, quantumClock = 0,
       readyQueue = []\<rparr>" "-1"]
  by simp

lemma dispatches_take:
  "n \<le> length (readyQueue s) \<Longrightarrow> fst (dispatches idle n s) = take n (readyQueue s)"
proof (induction n arbitrary: s)
  case 0
  then show ?case by simp
next
  case (Suc n)
  then obtain p ps where q: "readyQueue s = p # ps" by (cases "readyQueue s") auto
  let ?s1 = "s\<lparr>runningPid := p, quantumClock := quantum s - 1, readyQueue := ps\<rparr>"
  have d: "dispatch idle s = (p, ?s1)" using q by (simp add: dispatch_def)
  have "fst (dispatches idle n ?s1) = take n ps"
    using Suc.IH [of ?s1] Suc.prems q by simp
  then show ?case using q
    by (simp add: d split_def Let_def)
qed

text \<open>
  C10. When \<^verbatim>\<open>preempt\<close> is called while \<^verbatim>\<open>runningPid\<close> is \<^verbatim>\<open>IDLE\<close> and
  \<^verbatim>\<open>quantumClock\<close> is 0, it appends \<^verbatim>\<open>IDLE\<close> to the ready queue, changes nothing
  else and returns true. Dispatching from that queue then hands out the pids that were
  waiting and after them \<^verbatim>\<open>IDLE\<close>; if nothing was waiting, the very next
  \<^verbatim>\<open>dispatch\<close> returns \<^verbatim>\<open>IDLE\<close> through the branch for a non-empty queue, which
  empties the queue again and sets the clock to \<^verbatim>\<open>quantum - 1\<close>.
\<close>

theorem preempt_without_process:
  assumes "runningPid s = idle" and "quantumClock s = 0"
  shows "preempt idle s = (True, s\<lparr>readyQueue := readyQueue s @ [idle]\<rparr>)
     \<and> fst (dispatches idle (Suc (length (readyQueue s))) (snd (preempt idle s)))
         = readyQueue s @ [idle]
     \<and> (readyQueue s = [] \<longrightarrow>
          dispatch idle (snd (preempt idle s))
            = (idle, s\<lparr>quantumClock := quantum s - 1\<rparr>))"
proof -
  have p: "preempt idle s = (True, s\<lparr>readyQueue := readyQueue s @ [idle]\<rparr>)"
    using assms by (simp add: preempt_def)
  have "fst (dispatches idle (Suc (length (readyQueue s)))
               (s\<lparr>readyQueue := readyQueue s @ [idle]\<rparr>))
        = take (Suc (length (readyQueue s))) (readyQueue s @ [idle])"
    using dispatches_take [of "Suc (length (readyQueue s))"
      "s\<lparr>readyQueue := readyQueue s @ [idle]\<rparr>" idle]
    by simp
  then have d: "fst (dispatches idle (Suc (length (readyQueue s))) (snd (preempt idle s)))
         = readyQueue s @ [idle]"
    by (simp add: p)
  have e: "readyQueue s = [] \<longrightarrow>
          dispatch idle (snd (preempt idle s))
            = (idle, s\<lparr>quantumClock := quantum s - 1\<rparr>)"
    using assms by (simp add: p dispatch_def)
  from p d e show ?thesis by blast
qed

theorem preempt_without_process_witness:
  "runningPid \<lparr>sys = None, runningPid = -1, quantum = 3, quantumClock = 0,
      readyQueue = [5]\<rparr> = -1
   \<and> quantumClock \<lparr>sys = None, runningPid = -1, quantum = 3, quantumClock = 0,
      readyQueue = [5]\<rparr> = 0
   \<and> preempt (-1) \<lparr>sys = None, runningPid = -1, quantum = 3, quantumClock = 0,
      readyQueue = [5]\<rparr>
      = (True, \<lparr>sys = None, runningPid = -1, quantum = 3, quantumClock = 0,
      readyQueue = [5, -1]\<rparr>)
   \<and> fst (dispatches (-1) 2 (snd (preempt (-1) \<lparr>sys = None, runningPid = -1,
      quantum = 3, quantumClock = 0, readyQueue = [5]\<rparr>))) = [5, -1]
   \<and> readyQueue \<lparr>sys = None, runningPid = -1, quantum = 3, quantumClock = 0,
      readyQueue = []\<rparr> = []
   \<and> dispatch (-1) (snd (preempt (-1) \<lparr>sys = None, runningPid = -1, quantum = 3,
      quantumClock = 0, readyQueue = []\<rparr>))
      = (-1, \<lparr>sys = None, runningPid = -1, quantum = 3, quantumClock = 2,
      readyQueue = []\<rparr>)"
  using preempt_without_process [of "\<lparr>sys = None, runningPid = -1, quantum = 3,
      quantumClock = 0, readyQueue = [5]\<rparr>" "-1"]
    preempt_without_process [of "\<lparr>sys = None, runningPid = -1, quantum = 3,
      quantumClock = 0, readyQueue = []\<rparr>" "-1"]
  by (simp add: eval_nat_numeral ops)

end
